theory Spec2Isabelle
  imports Main "HOL-Library.Word" "HOL-Library.Finite_Map"
begin

unbundle bit_operations_syntax

section \<open>Go values seen by the message processors\<close>

text \<open>
  The repository has two message processors with the same interface:
  \<^item> \<open>ProcessorV1\<close> of package \<open>protobuf\<close> (protobuf\_v1.go), whose three maps are keyed
    by \<open>reflect.Type\<close>, \<open>reflect.Type\<close> and \<open>uint16\<close>;
  \<^item> \<open>Processor\<close> of package \<open>extend\<close>, whose \<open>msgInfo\<close> map is keyed by \<open>uint16\<close>.
  Functions and fields of the first carry the suffix \<open>V1\<close> or the prefix \<open>i1_\<close>/\<open>p1_\<close>;
  those of the second keep the source's names, with the prefix \<open>i_\<close>/\<open>p_\<close> on fields.
\<close>

type_synonym byte = "8 word"
type_synonym uint16 = "16 word"

text \<open>
  \<open>reflect.Type\<close>: the nil type (of a nil interface value), the type of \<open>MsgRaw\<close>, a
  pointer type \<open>*S\<^sub>n\<close> and a non-pointer type \<open>S\<^sub>n\<close>.
\<close>

datatype rtype = TNil | TMsgRaw | TPtr nat | TStruct nat

text \<open>\<open>t.Kind() == reflect.Ptr\<close>\<close>

fun is_Ptr :: "rtype \<Rightarrow> bool" where
  "is_Ptr (TPtr n) = True"
| "is_Ptr t = False"

text \<open>\<open>t.Elem()\<close>: the pointee of a pointer type; \<open>None\<close> is the panic on any other type here.\<close>

fun Elem :: "rtype \<Rightarrow> rtype option" where
  "Elem (TPtr n) = Some (TStruct n)"
| "Elem t = None"

text \<open>
  A value of type \<open>any\<close>: nil, a \<open>MsgRaw{msgID, msgRawData}\<close>, a pointer to a message of
  struct \<open>n\<close> with content \<open>c\<close>, or a non-pointer value. The struct \<open>MsgRaw\<close> that
  \<open>ProcessorV1\<close> uses is declared outside protobuf\_v1.go; it is built and read there
  as \<open>MsgRaw{id, data[2:]}\<close>, \<open>.msgID\<close> and \<open>.msgRawData\<close>, which is the struct of package
  \<open>extend\<close>, so both processors share the constructor.
\<close>

datatype 'c any = AnyNil | MsgRaw uint16 "byte list" | PtrTo nat 'c | Struct nat 'c

fun TypeOf :: "'c any \<Rightarrow> rtype" where
  "TypeOf AnyNil = TNil"
| "TypeOf (MsgRaw k d) = TMsgRaw"
| "TypeOf (PtrTo n c) = TPtr n"
| "TypeOf (Struct n c) = TStruct n"

text \<open>
  \<open>reflect.New(t).Interface()\<close>: a pointer to a zero value of \<open>t\<close>. Only struct types are
  modelled as pointees (\<open>Elem\<close> yields nothing else); \<open>zero n\<close> is the zero content.
\<close>

fun reflect_New :: "(nat \<Rightarrow> 'c) \<Rightarrow> rtype \<Rightarrow> 'c any option" where
  "reflect_New zero (TStruct n) = Some (PtrTo n (zero n))"
| "reflect_New zero t = None"

subsection \<open>encoding/binary\<close>

definition BigEndian_PutUint16 :: "uint16 \<Rightarrow> byte list" where
  "BigEndian_PutUint16 v = [ucast (drop_bit 8 v), ucast v]"

definition LittleEndian_PutUint16 :: "uint16 \<Rightarrow> byte list" where
  "LittleEndian_PutUint16 v = [ucast v, ucast (drop_bit 8 v)]"

text \<open>Reading needs two bytes; \<open>None\<close> is the index-out-of-range panic.\<close>

fun BigEndian_Uint16 :: "byte list \<Rightarrow> uint16 option" where
  "BigEndian_Uint16 (b0 # b1 # bs) = Some (ucast b1 OR push_bit 8 (ucast b0))"
| "BigEndian_Uint16 bs = None"

fun LittleEndian_Uint16 :: "byte list \<Rightarrow> uint16 option" where
  "LittleEndian_Uint16 (b0 # b1 # bs) = Some (ucast b0 OR push_bit 8 (ucast b1))"
| "LittleEndian_Uint16 bs = None"

definition MaxUint16 :: nat where
  "MaxUint16 = 65535"

subsection \<open>Collaborators, errors and observable calls\<close>

text \<open>
  The serialization library: \<open>proto.Marshal\<close> yields bytes and an optional error;
  \<open>proto.Unmarshal(b, m)\<close> overwrites the content of the message \<open>m\<close> points to (its
  struct is \<open>n\<close>, its content \<open>c\<close>) and yields the new content and an optional error.
  \<open>zero n\<close> is the zero value of struct \<open>n\<close>.
\<close>

record 'c proto =
  proto_Marshal :: "'c any \<Rightarrow> byte list \<times> string option"
  proto_Unmarshal :: "byte list \<Rightarrow> nat \<Rightarrow> 'c \<Rightarrow> 'c \<times> string option"
  zero :: "nat \<Rightarrow> 'c"

text \<open>Errors returned to the caller.\<close>

datatype error =
    ErrMarshalNotRegistered rtype
  | ErrRouteIDNotRegistered uint16
  | ErrRouteNotRegistered rtype
  | ErrDataTooShort
  | ErrUnmarshalIDNotRegistered uint16
  | ErrProto string

text \<open>Ends of the process: \<open>log.Fatal\<close> with its message, and runtime panics.\<close>

datatype abort =
    FatalMustBePointer
  | FatalAlreadyRegistered rtype
  | FatalTooMany
  | FatalMessageNotRegistered rtype
  | FatalIDNotRegistered uint16
  | PanicNilPointer
  | PanicIndexOutOfRange
  | PanicElem

text \<open>A \<open>MsgHandler\<close> and a \<open>*chanrpc.Server\<close> are named by numbers; nil is \<open>None\<close>.\<close>

type_synonym handler = nat
type_synonym router = nat

datatype ('c, 'u) arg = ArgID uint16 | ArgData "byte list" | ArgMsg "'c any" | ArgUser 'u

datatype ('c, 'u) event =
    HandlerCall handler "('c, 'u) arg list"
  | RouterGo router rtype "('c, 'u) arg list"

fun is_RouterGo :: "('c, 'u) event \<Rightarrow> bool" where
  "is_RouterGo (RouterGo r t as) = True"
| "is_RouterGo (HandlerCall h as) = False"

text \<open>A call of \<open>proto.Unmarshal\<close>: the bytes and the type of the message passed.\<close>

datatype proto_call = ProtoUnmarshalCall "byte list" rtype

section \<open>ProcessorV1 (package protobuf)\<close>

record MsgInfoV1 =
  i1_msgType :: rtype
  i1_msgID :: uint16
  i1_msgRouter :: "router option"
  i1_msgHandler :: "handler option"
  i1_msgRawHandler :: "handler option"

record ProcessorV1 =
  p1_littleEndian :: bool
  p1_msgInfo :: "(rtype, MsgInfoV1) fmap"
  p1_msgID :: "(rtype, uint16) fmap"
  p1_typeID :: "(uint16, rtype) fmap"

definition NewMsgIdProcessor :: ProcessorV1 where
  "NewMsgIdProcessor =
     \<lparr>p1_littleEndian = False, p1_msgInfo = fmempty, p1_msgID = fmempty, p1_typeID = fmempty\<rparr>"

definition SetByteOrderV1 :: "ProcessorV1 \<Rightarrow> bool \<Rightarrow> ProcessorV1" where
  "SetByteOrderV1 p littleEndian = p\<lparr>p1_littleEndian := littleEndian\<rparr>"

text \<open>
  The configuration calls return the abort, if any, and the processor as it is when the
  call ends. The prototype message enters \<open>Register\<close>, \<open>SetRouter\<close> and \<open>SetHandler\<close> only
  through \<open>reflect.TypeOf(msg)\<close>, which is the argument \<open>msgType\<close> here.
\<close>

definition SetRouterV1 :: "ProcessorV1 \<Rightarrow> rtype \<Rightarrow> router option \<Rightarrow> abort option \<times> ProcessorV1" where
  "SetRouterV1 p msgType msgRouter =
     (case fmlookup (p1_msgID p) msgType of
        None \<Rightarrow> (Some (FatalMessageNotRegistered msgType), p)
      | Some k \<Rightarrow>
          (case fmlookup (p1_msgInfo p) msgType of
             None \<Rightarrow> (Some PanicNilPointer, p)
           | Some i \<Rightarrow>
               (None, p\<lparr>p1_msgInfo := fmupd msgType (i\<lparr>i1_msgRouter := msgRouter\<rparr>) (p1_msgInfo p)\<rparr>)))"

definition SetHandlerV1 :: "ProcessorV1 \<Rightarrow> rtype \<Rightarrow> handler option \<Rightarrow> abort option \<times> ProcessorV1" where
  "SetHandlerV1 p msgType msgHandler =
     (case fmlookup (p1_msgID p) msgType of
        None \<Rightarrow> (Some (FatalMessageNotRegistered msgType), p)
      | Some k \<Rightarrow>
          (case fmlookup (p1_msgInfo p) msgType of
             None \<Rightarrow> (Some PanicNilPointer, p)
           | Some i \<Rightarrow>
               (None, p\<lparr>p1_msgInfo := fmupd msgType (i\<lparr>i1_msgHandler := msgHandler\<rparr>) (p1_msgInfo p)\<rparr>)))"

definition SetRawHandlerV1 :: "ProcessorV1 \<Rightarrow> uint16 \<Rightarrow> handler option \<Rightarrow> abort option \<times> ProcessorV1" where
  "SetRawHandlerV1 p k msgRawHandler =
     (case fmlookup (p1_typeID p) k of
        None \<Rightarrow> (Some (FatalIDNotRegistered k), p)
      | Some msgType \<Rightarrow>
          (case fmlookup (p1_msgInfo p) msgType of
             None \<Rightarrow> (Some PanicNilPointer, p)
           | Some i \<Rightarrow>
               (None, p\<lparr>p1_msgInfo := fmupd msgType (i\<lparr>i1_msgRawHandler := msgRawHandler\<rparr>) (p1_msgInfo p)\<rparr>)))"

definition RegisterV1 :: "ProcessorV1 \<Rightarrow> uint16 \<Rightarrow> rtype \<Rightarrow> abort option \<times> ProcessorV1" where
  "RegisterV1 p msgID msgType =
     (if msgType = TNil \<or> \<not> is_Ptr msgType then (Some FatalMustBePointer, p)
      else if fmlookup (p1_msgInfo p) msgType \<noteq> None then (Some (FatalAlreadyRegistered msgType), p)
      else if fcard (fmdom (p1_msgInfo p)) \<ge> MaxUint16 then (Some FatalTooMany, p)
      else (None,
            p\<lparr>p1_msgInfo :=
                 fmupd msgType
                   \<lparr>i1_msgType = msgType, i1_msgID = msgID, i1_msgRouter = None,
                    i1_msgHandler = None, i1_msgRawHandler = None\<rparr>
                   (p1_msgInfo p),
              p1_msgID := fmupd msgType msgID (p1_msgID p),
              p1_typeID := fmupd msgID msgType (p1_typeID p)\<rparr>))"

text \<open>\<open>Marshal\<close> returns the segments (nil is \<open>[]\<close>) and the error.\<close>

definition MarshalV1 :: "'c proto \<Rightarrow> ProcessorV1 \<Rightarrow> 'c any \<Rightarrow> byte list list \<times> error option" where
  "MarshalV1 env p msg =
     (let msgType = TypeOf msg in
      case fmlookup (p1_msgInfo p) msgType of
        None \<Rightarrow> ([], Some (ErrMarshalNotRegistered msgType))
      | Some i \<Rightarrow>
          (let id = (if p1_littleEndian p then LittleEndian_PutUint16 (i1_msgID i)
                     else BigEndian_PutUint16 (i1_msgID i));
               r = proto_Marshal env msg
           in ([id, fst r], map_option ErrProto (snd r))))"

text \<open>
  \<open>Route\<close> returns the abort or the error (\<open>None\<close> is nil), and the handler and router
  calls it made, in order.
\<close>

definition RouteV1 ::
  "ProcessorV1 \<Rightarrow> 'c any \<Rightarrow> 'u \<Rightarrow> (abort + error option) \<times> ('c, 'u) event list" where
  "RouteV1 p msg userData =
     (case msg of
        MsgRaw k raw \<Rightarrow>
          (case fmlookup (p1_typeID p) k of
             None \<Rightarrow> (Inr (Some (ErrRouteIDNotRegistered k)), [])
           | Some msgType \<Rightarrow>
               (case fmlookup (p1_msgInfo p) msgType of
                  None \<Rightarrow> (Inl PanicNilPointer, [])
                | Some i \<Rightarrow>
                    (Inr None,
                     (case i1_msgRawHandler i of
                        None \<Rightarrow> []
                      | Some h \<Rightarrow> [HandlerCall h [ArgID k, ArgData raw, ArgUser userData]]))))
      | _ \<Rightarrow>
          (let msgType = TypeOf msg in
           case fmlookup (p1_msgID p) msgType of
             None \<Rightarrow> (Inr (Some (ErrRouteNotRegistered msgType)), [])
           | Some k \<Rightarrow>
               (case fmlookup (p1_msgInfo p) msgType of
                  None \<Rightarrow> (Inl PanicNilPointer, [])
                | Some i \<Rightarrow>
                    (Inr None,
                     (case i1_msgHandler i of
                        None \<Rightarrow> []
                      | Some h \<Rightarrow> [HandlerCall h [ArgMsg msg, ArgUser userData]]) @
                     (case i1_msgRouter i of
                        None \<Rightarrow> []
                      | Some r \<Rightarrow> [RouterGo r msgType [ArgMsg msg, ArgUser userData]])))))"

text \<open>The header as \<open>Unmarshal\<close> reads it, under the processor's byte order.\<close>

definition read_idV1 :: "ProcessorV1 \<Rightarrow> byte list \<Rightarrow> uint16 option" where
  "read_idV1 p data =
     (if p1_littleEndian p then LittleEndian_Uint16 data else BigEndian_Uint16 data)"

text \<open>
  \<open>Unmarshal\<close> returns the abort or the pair of value and error, and the calls of
  \<open>proto.Unmarshal\<close> it made.
\<close>

definition UnmarshalV1 ::
  "'c proto \<Rightarrow> ProcessorV1 \<Rightarrow> byte list \<Rightarrow> (abort + 'c any \<times> error option) \<times> proto_call list" where
  "UnmarshalV1 env p data =
     (if length data < 2 then (Inr (AnyNil, Some ErrDataTooShort), [])
      else
        case read_idV1 p data of
          None \<Rightarrow> (Inl PanicIndexOutOfRange, [])
        | Some k \<Rightarrow>
            (case fmlookup (p1_typeID p) k of
               None \<Rightarrow> (Inr (AnyNil, Some (ErrUnmarshalIDNotRegistered k)), [])
             | Some msgType \<Rightarrow>
                 (case fmlookup (p1_msgInfo p) msgType of
                    None \<Rightarrow> (Inl PanicNilPointer, [])
                  | Some i \<Rightarrow>
                      if i1_msgRawHandler i \<noteq> None then (Inr (MsgRaw k (drop 2 data), None), [])
                      else
                        (case Option.bind (Elem (i1_msgType i)) (reflect_New (zero env)) of
                           Some (PtrTo n c) \<Rightarrow>
                             (let r = proto_Unmarshal env (drop 2 data) n c
                              in (Inr (PtrTo n (fst r), map_option ErrProto (snd r)),
                                  [ProtoUnmarshalCall (drop 2 data) (TPtr n)]))
                         | _ \<Rightarrow> (Inl PanicElem, [])))))"

section \<open>Processor (package extend)\<close>

record MsgInfo =
  i_msgType :: rtype
  i_msgID :: uint16
  i_msgRouter :: "router option"
  i_msgHandler :: "handler option"
  i_msgRawHandler :: "handler option"

record Processor =
  p_littleEndian :: bool
  p_msgInfo :: "(uint16, MsgInfo) fmap"
  p_msgID :: "(rtype, uint16) fmap"

definition Marshal :: "'c proto \<Rightarrow> Processor \<Rightarrow> 'c any \<Rightarrow> byte list list \<times> error option" where
  "Marshal env p msg =
     (let msgType = TypeOf msg in
      case fmlookup (p_msgID p) msgType of
        None \<Rightarrow> ([], Some (ErrMarshalNotRegistered msgType))
      | Some msgId \<Rightarrow>
          (let id = (if p_littleEndian p then LittleEndian_PutUint16 msgId
                     else BigEndian_PutUint16 msgId);
               r = proto_Marshal env msg
           in ([id, fst r], map_option ErrProto (snd r))))"

definition Route ::
  "Processor \<Rightarrow> 'c any \<Rightarrow> 'u \<Rightarrow> (abort + error option) \<times> ('c, 'u) event list" where
  "Route p msg userData =
     (case msg of
        MsgRaw k raw \<Rightarrow>
          (case fmlookup (p_msgInfo p) k of
             None \<Rightarrow> (Inr (Some (ErrRouteIDNotRegistered k)), [])
           | Some info \<Rightarrow>
               (Inr None,
                (case i_msgRawHandler info of
                   None \<Rightarrow> []
                 | Some h \<Rightarrow> [HandlerCall h [ArgID k, ArgData raw, ArgUser userData]])))
      | _ \<Rightarrow>
          (let msgType = TypeOf msg in
           case fmlookup (p_msgID p) msgType of
             None \<Rightarrow> (Inr (Some (ErrRouteNotRegistered msgType)), [])
           | Some k \<Rightarrow>
               (case fmlookup (p_msgInfo p) k of
                  None \<Rightarrow> (Inl PanicNilPointer, [])
                | Some info \<Rightarrow>
                    (Inr None,
                     (case i_msgHandler info of
                        None \<Rightarrow> []
                      | Some h \<Rightarrow> [HandlerCall h [ArgMsg msg, ArgUser userData]]) @
                     (case i_msgRouter info of
                        None \<Rightarrow> []
                      | Some r \<Rightarrow> [RouterGo r msgType [ArgMsg msg, ArgUser userData]])))))"

definition read_id :: "Processor \<Rightarrow> byte list \<Rightarrow> uint16 option" where
  "read_id p data =
     (if p_littleEndian p then LittleEndian_Uint16 data else BigEndian_Uint16 data)"

definition Unmarshal ::
  "'c proto \<Rightarrow> Processor \<Rightarrow> byte list \<Rightarrow> (abort + 'c any \<times> error option) \<times> proto_call list" where
  "Unmarshal env p data =
     (if length data < 2 then (Inr (AnyNil, Some ErrDataTooShort), [])
      else
        case read_id p data of
          None \<Rightarrow> (Inl PanicIndexOutOfRange, [])
        | Some k \<Rightarrow>
            (case fmlookup (p_msgInfo p) k of
               None \<Rightarrow> (Inr (AnyNil, Some (ErrUnmarshalIDNotRegistered k)), [])
             | Some info \<Rightarrow>
                 if i_msgRawHandler info \<noteq> None then (Inr (MsgRaw k (drop 2 data), None), [])
                 else
                   (case Option.bind (Elem (i_msgType info)) (reflect_New (zero env)) of
                      Some (PtrTo n c) \<Rightarrow>
                        (let r = proto_Unmarshal env (drop 2 data) n c
                         in (Inr (PtrTo n (fst r), map_option ErrProto (snd r)),
                             [ProtoUnmarshalCall (drop 2 data) (TPtr n)]))
                    | _ \<Rightarrow> (Inl PanicElem, []))))"

text \<open>
  \<open>Register\<close> of package \<open>extend\<close> reads \<open>id, ok := p.msgID[msgType]\<close> and, past the
  already-registered check, stores the new entry at \<open>p.msgInfo[id]\<close>: \<open>id\<close> is then the zero
  value of the failed lookup, not the argument \<open>msgID\<close>.
\<close>

definition Register :: "Processor \<Rightarrow> uint16 \<Rightarrow> rtype \<Rightarrow> abort option \<times> Processor" where
  "Register p msgID msgType =
     (if msgType = TNil \<or> \<not> is_Ptr msgType then (Some FatalMustBePointer, p)
      else
        case fmlookup (p_msgID p) msgType of
          Some k \<Rightarrow> (Some (FatalAlreadyRegistered msgType), p)
        | None \<Rightarrow>
            (let id = 0 in
             if fcard (fmdom (p_msgInfo p)) \<ge> MaxUint16 then (Some FatalTooMany, p)
             else (None,
                   p\<lparr>p_msgInfo :=
                        fmupd id
                          \<lparr>i_msgType = msgType, i_msgID = msgID, i_msgRouter = None,
                           i_msgHandler = None, i_msgRawHandler = None\<rparr>
                          (p_msgInfo p),
                     p_msgID := fmupd msgType msgID (p_msgID p)\<rparr>)))"

definition SetByteOrder :: "Processor \<Rightarrow> bool \<Rightarrow> Processor" where
  "SetByteOrder p littleEndian = p\<lparr>p_littleEndian := littleEndian\<rparr>"

definition SetRouter :: "Processor \<Rightarrow> rtype \<Rightarrow> router option \<Rightarrow> abort option \<times> Processor" where
  "SetRouter p msgType msgRouter =
     (case fmlookup (p_msgID p) msgType of
        None \<Rightarrow> (Some (FatalMessageNotRegistered msgType), p)
      | Some k \<Rightarrow>
          (case fmlookup (p_msgInfo p) k of
             None \<Rightarrow> (Some PanicNilPointer, p)
           | Some info \<Rightarrow>
               (None, p\<lparr>p_msgInfo := fmupd k (info\<lparr>i_msgRouter := msgRouter\<rparr>) (p_msgInfo p)\<rparr>)))"

definition SetHandler :: "Processor \<Rightarrow> rtype \<Rightarrow> handler option \<Rightarrow> abort option \<times> Processor" where
  "SetHandler p msgType msgHandler =
     (case fmlookup (p_msgID p) msgType of
        None \<Rightarrow> (Some (FatalMessageNotRegistered msgType), p)
      | Some k \<Rightarrow>
          (case fmlookup (p_msgInfo p) k of
             None \<Rightarrow> (Some PanicNilPointer, p)
           | Some info \<Rightarrow>
               (None, p\<lparr>p_msgInfo := fmupd k (info\<lparr>i_msgHandler := msgHandler\<rparr>) (p_msgInfo p)\<rparr>)))"

definition SetRawHandler :: "Processor \<Rightarrow> uint16 \<Rightarrow> handler option \<Rightarrow> abort option \<times> Processor" where
  "SetRawHandler p k msgRawHandler =
     (case fmlookup (p_msgInfo p) k of
        None \<Rightarrow> (Some (FatalIDNotRegistered k), p)
      | Some info \<Rightarrow>
          (None, p\<lparr>p_msgInfo := fmupd k (info\<lparr>i_msgRawHandler := msgRawHandler\<rparr>) (p_msgInfo p)\<rparr>))"

section \<open>The configuration phase\<close>

text \<open>
  The registry is configured by a sequence of calls before traffic flows. A call that
  ends the process ends the sequence: \<open>run\<close> yields the processor only when every call
  of the sequence returned.
\<close>

datatype opV1 =
    OpRegisterV1 uint16 rtype
  | OpSetRouterV1 rtype "router option"
  | OpSetHandlerV1 rtype "handler option"
  | OpSetRawHandlerV1 uint16 "handler option"
  | OpSetByteOrderV1 bool

fun execV1 :: "ProcessorV1 \<Rightarrow> opV1 \<Rightarrow> abort option \<times> ProcessorV1" where
  "execV1 p (OpRegisterV1 k t) = RegisterV1 p k t"
| "execV1 p (OpSetRouterV1 t r) = SetRouterV1 p t r"
| "execV1 p (OpSetHandlerV1 t h) = SetHandlerV1 p t h"
| "execV1 p (OpSetRawHandlerV1 k h) = SetRawHandlerV1 p k h"
| "execV1 p (OpSetByteOrderV1 b) = (None, SetByteOrderV1 p b)"

fun runV1 :: "ProcessorV1 \<Rightarrow> opV1 list \<Rightarrow> ProcessorV1 option" where
  "runV1 p [] = Some p"
| "runV1 p (x # xs) = (case execV1 p x of (None, p') \<Rightarrow> runV1 p' xs | (Some a, p') \<Rightarrow> None)"


datatype op =
    OpRegister uint16 rtype
  | OpSetRouter rtype "router option"
  | OpSetHandler rtype "handler option"
  | OpSetRawHandler uint16 "handler option"
  | OpSetByteOrder bool

fun exec :: "Processor \<Rightarrow> op \<Rightarrow> abort option \<times> Processor" where
  "exec p (OpRegister k t) = Register p k t"
| "exec p (OpSetRouter t r) = SetRouter p t r"
| "exec p (OpSetHandler t h) = SetHandler p t h"
| "exec p (OpSetRawHandler k h) = SetRawHandler p k h"
| "exec p (OpSetByteOrder b) = (None, SetByteOrder p b)"

fun run :: "Processor \<Rightarrow> op list \<Rightarrow> Processor option" where
  "run p [] = Some p"
| "run p (x # xs) = (case exec p x of (None, p') \<Rightarrow> run p' xs | (Some a, p') \<Rightarrow> None)"


text \<open>A \<open>Processor\<close> of package \<open>extend\<close> whose maps are made and empty.\<close>

definition empty_Processor :: Processor where
  "empty_Processor = \<lparr>p_littleEndian = False, p_msgInfo = fmempty, p_msgID = fmempty\<rparr>"

text \<open>Registering the schemas \<open>*S\<^sub>0\<close>, ..., \<open>*S\<^sub>n\<^sub>-\<^sub>1\<close> under the IDs \<open>0\<close>, ..., \<open>n - 1\<close>.\<close>

definition register_firstV1 :: "nat \<Rightarrow> opV1 list" where
  "register_firstV1 n = map (\<lambda>j. OpRegisterV1 (of_nat j) (TPtr j)) [0..<n]"

primrec firstV1 :: "nat \<Rightarrow> ProcessorV1" where
  "firstV1 0 = NewMsgIdProcessor"
| "firstV1 (Suc n) = snd (RegisterV1 (firstV1 n) (of_nat n) (TPtr n))"

text \<open>
  A serialization library for the examples: the content of a message is its wire bytes.
\<close>

definition example_proto :: "byte list proto" where
  "example_proto =
     \<lparr>proto_Marshal = (\<lambda>m. case m of PtrTo n c \<Rightarrow> (c, None) | _ \<Rightarrow> ([], Some ''not a message'')),
      proto_Unmarshal = (\<lambda>b n c. (b, None)),
      zero = (\<lambda>n. [])\<rparr>"

text \<open>
  Example registries with one schema \<open>*S\<^sub>0\<close> and the attachments given: under ID 1 on
  \<open>ProcessorV1\<close>, under ID 0 on \<open>Processor\<close>.
\<close>

definition entryV1 :: "router option \<Rightarrow> handler option \<Rightarrow> handler option \<Rightarrow> ProcessorV1" where
  "entryV1 r h rh =
     \<lparr>p1_littleEndian = False,
      p1_msgInfo = fmupd (TPtr 0)
          \<lparr>i1_msgType = TPtr 0, i1_msgID = 1, i1_msgRouter = r,
           i1_msgHandler = h, i1_msgRawHandler = rh\<rparr> fmempty,
      p1_msgID = fmupd (TPtr 0) 1 fmempty,
      p1_typeID = fmupd 1 (TPtr 0) fmempty\<rparr>"

definition entry :: "router option \<Rightarrow> handler option \<Rightarrow> handler option \<Rightarrow> Processor" where
  "entry r h rh =
     \<lparr>p_littleEndian = False,
      p_msgInfo = fmupd 0
          \<lparr>i_msgType = TPtr 0, i_msgID = 0, i_msgRouter = r,
           i_msgHandler = h, i_msgRawHandler = rh\<rparr> fmempty,
      p_msgID = fmupd (TPtr 0) 0 fmempty\<rparr>"

text \<open>
  \<open>ProcessorV1\<close> after \<open>Register(1, *S\<^sub>0)\<close> and \<open>Register(1, *S\<^sub>1)\<close>, and \<open>Processor\<close> after
  \<open>Register(1, *S\<^sub>0)\<close>.
\<close>

definition reusedV1 :: ProcessorV1 where
  "reusedV1 =
     \<lparr>p1_littleEndian = False,
      p1_msgInfo = fmupd (TPtr 1)
          \<lparr>i1_msgType = TPtr 1, i1_msgID = 1, i1_msgRouter = None,
           i1_msgHandler = None, i1_msgRawHandler = None\<rparr>
          (fmupd (TPtr 0)
             \<lparr>i1_msgType = TPtr 0, i1_msgID = 1, i1_msgRouter = None,
              i1_msgHandler = None, i1_msgRawHandler = None\<rparr> fmempty),
      p1_msgID = fmupd (TPtr 1) 1 (fmupd (TPtr 0) 1 fmempty),
      p1_typeID = fmupd 1 (TPtr 1) fmempty\<rparr>"

definition slipped :: Processor where
  "slipped =
     \<lparr>p_littleEndian = False,
      p_msgInfo = fmupd 0
          \<lparr>i_msgType = TPtr 0, i_msgID = 1, i_msgRouter = None,
           i_msgHandler = None, i_msgRawHandler = None\<rparr> fmempty,
      p_msgID = fmupd (TPtr 0) 1 fmempty\<rparr>"

text \<open>The type of the value \<open>Unmarshal\<close> returned, if it returned.\<close>

fun returned_type :: "abort + 'c any \<times> error option \<Rightarrow> rtype option" where
  "returned_type (Inr (v, e)) = Some (TypeOf v)"
| "returned_type (Inl a) = None"

fun is_MsgRaw :: "'c any \<Rightarrow> bool" where
  "is_MsgRaw (MsgRaw k d) = True"
| "is_MsgRaw m = False"

text \<open>
  What holds of a \<open>ProcessorV1\<close> throughout the configuration phase: an entry records its
  own key and ID, only pointer types are registered, the three maps agree, and the number
  of entries stays within the bound of \<open>Register\<close>.
\<close>

definition invV1 :: "ProcessorV1 \<Rightarrow> bool" where
  "invV1 p \<longleftrightarrow>
     (\<forall>t i. fmlookup (p1_msgInfo p) t = Some i \<longrightarrow>
        i1_msgType i = t \<and> is_Ptr t \<and> fmlookup (p1_msgID p) t = Some (i1_msgID i)) \<and>
     (\<forall>t k. fmlookup (p1_msgID p) t = Some k \<longrightarrow> fmlookup (p1_msgInfo p) t \<noteq> None) \<and>
     (\<forall>k t. fmlookup (p1_typeID p) k = Some t \<longrightarrow> fmlookup (p1_msgID p) t = Some k) \<and>
     fcard (fmdom (p1_msgInfo p)) \<le> MaxUint16"

section \<open>Auxiliary facts\<close>

subsection \<open>Headers\<close>

lemma BigEndian_roundtrip: "BigEndian_Uint16 (BigEndian_PutUint16 v @ bs) = Some v"
  unfolding BigEndian_PutUint16_def
  apply simp
  apply (rule bit_word_eqI)
  apply (auto simp add: bit_simps)
  done

lemma LittleEndian_roundtrip: "LittleEndian_Uint16 (LittleEndian_PutUint16 v @ bs) = Some v"
  unfolding LittleEndian_PutUint16_def
  apply simp
  apply (rule bit_word_eqI)
  apply (auto simp add: bit_simps)
  done

lemma PutUint16_length [simp]:
  "length (BigEndian_PutUint16 v) = 2" "length (LittleEndian_PutUint16 v) = 2"
  by (simp_all add: BigEndian_PutUint16_def LittleEndian_PutUint16_def)

lemma is_Ptr_TypeOf: "is_Ptr (TypeOf msg) \<Longrightarrow> \<exists>n c. msg = PtrTo n c"
  by (cases msg) auto

subsection \<open>The invariant of ProcessorV1\<close>

lemma invV1_New: "invV1 NewMsgIdProcessor"
  by (simp add: invV1_def NewMsgIdProcessor_def fcard_fempty)

lemma fcard_fmdom_fmupd_new:
  "fmlookup m k = None \<Longrightarrow> fcard (finsert k (fmdom m)) = Suc (fcard (fmdom m))"
  by (simp add: fcard_finsert_if fmdom_notI)

lemma invV1_Register:
  assumes inv: "invV1 p" and reg: "RegisterV1 p k t = (None, p')"
  shows "invV1 p'"
proof -
  from reg have ptr: "is_Ptr t" and fresh: "fmlookup (p1_msgInfo p) t = None"
    and room: "fcard (fmdom (p1_msgInfo p)) < MaxUint16"
    and p': "p' = p\<lparr>p1_msgInfo :=
                 fmupd t
                   \<lparr>i1_msgType = t, i1_msgID = k, i1_msgRouter = None,
                    i1_msgHandler = None, i1_msgRawHandler = None\<rparr>
                   (p1_msgInfo p),
              p1_msgID := fmupd t k (p1_msgID p),
              p1_typeID := fmupd k t (p1_typeID p)\<rparr>"
    by (auto simp: RegisterV1_def split: if_splits)
  from inv fresh have noid: "fmlookup (p1_msgID p) t = None"
    unfolding invV1_def by (cases "fmlookup (p1_msgID p) t") auto
  from inv noid have notype: "\<And>j. fmlookup (p1_typeID p) j \<noteq> Some t"
    unfolding invV1_def by force
  have card: "fcard (fmdom (p1_msgInfo p')) \<le> MaxUint16"
    using room fresh by (simp add: p' fcard_fmdom_fmupd_new)
  show ?thesis
    unfolding invV1_def
  proof (intro conjI allI impI)
    fix u i assume "fmlookup (p1_msgInfo p') u = Some i"
    then show "i1_msgType i = u" "is_Ptr u" "fmlookup (p1_msgID p') u = Some (i1_msgID i)"
      using inv ptr unfolding invV1_def by (auto simp: p' split: if_splits)
  next
    fix u j assume "fmlookup (p1_msgID p') u = Some j"
    then show "fmlookup (p1_msgInfo p') u \<noteq> None"
      using inv unfolding invV1_def by (auto simp: p' split: if_splits)
  next
    fix j u assume "fmlookup (p1_typeID p') j = Some u"
    then show "fmlookup (p1_msgID p') u = Some j"
      using inv notype unfolding invV1_def by (auto simp: p' split: if_splits)
  next
    show "fcard (fmdom (p1_msgInfo p')) \<le> MaxUint16" by (rule card)
  qed
qed

lemma invV1_SetRouter: "invV1 p \<Longrightarrow> SetRouterV1 p t r = (None, p') \<Longrightarrow> invV1 p'"
  unfolding invV1_def SetRouterV1_def
  by (auto split: if_splits option.splits simp: finsert_absorb fmdomI)

lemma invV1_SetHandler: "invV1 p \<Longrightarrow> SetHandlerV1 p t r = (None, p') \<Longrightarrow> invV1 p'"
  unfolding invV1_def SetHandlerV1_def
  by (auto split: if_splits option.splits simp: finsert_absorb fmdomI)

lemma invV1_SetRawHandler: "invV1 p \<Longrightarrow> SetRawHandlerV1 p t r = (None, p') \<Longrightarrow> invV1 p'"
  unfolding invV1_def SetRawHandlerV1_def
  by (auto split: if_splits option.splits simp: finsert_absorb fmdomI)

lemma invV1_SetByteOrder: "invV1 p \<Longrightarrow> invV1 (SetByteOrderV1 p b)"
  by (simp add: invV1_def SetByteOrderV1_def)

lemma invV1_exec: "invV1 p \<Longrightarrow> execV1 p x = (None, p') \<Longrightarrow> invV1 p'"
  by (cases x) (auto intro: invV1_Register invV1_SetRouter invV1_SetHandler invV1_SetRawHandler invV1_SetByteOrder)

lemma invV1_run: "invV1 p \<Longrightarrow> runV1 p xs = Some p' \<Longrightarrow> invV1 p'"
proof (induction xs arbitrary: p)
  case Nil
  then show ?case by simp
next
  case (Cons x xs)
  then show ?case
    by (auto split: prod.splits option.splits dest: invV1_exec)
qed

subsection \<open>What the configuration calls keep\<close>

lemma runV1_append:
  "runV1 p (xs @ ys) = Option.bind (runV1 p xs) (\<lambda>q. runV1 q ys)"
  by (induction xs arbitrary: p) (auto split: prod.splits option.splits)

lemma execV1_keeps_msgInfo:
  "execV1 p x = (None, p') \<Longrightarrow> fmlookup (p1_msgInfo p) t \<noteq> None \<Longrightarrow> fmlookup (p1_msgInfo p') t \<noteq> None"
  by (cases x)
     (auto simp: RegisterV1_def SetRouterV1_def SetHandlerV1_def SetRawHandlerV1_def
        SetByteOrderV1_def split: if_splits option.splits)

lemma runV1_keeps_msgInfo:
  "runV1 p xs = Some p' \<Longrightarrow> fmlookup (p1_msgInfo p) t \<noteq> None \<Longrightarrow> fmlookup (p1_msgInfo p') t \<noteq> None"
proof (induction xs arbitrary: p)
  case Nil
  then show ?case by simp
next
  case (Cons x xs)
  obtain a q where ex: "execV1 p x = (a, q)" by (cases "execV1 p x")
  with Cons.prems have a: "a = None" and r: "runV1 q xs = Some p'"
    by (auto split: option.splits)
  from ex a Cons.prems(2) have "fmlookup (p1_msgInfo q) t \<noteq> None"
    by (auto dest: execV1_keeps_msgInfo)
  with r show ?case by (rule Cons.IH)
qed

lemma exec_keeps_msgID:
  "exec p x = (None, p') \<Longrightarrow> fmlookup (p_msgID p) t \<noteq> None \<Longrightarrow> fmlookup (p_msgID p') t \<noteq> None"
  by (cases x)
     (auto simp: Register_def SetRouter_def SetHandler_def SetRawHandler_def
        SetByteOrder_def split: if_splits option.splits)

lemma run_keeps_msgID:
  "run p xs = Some p' \<Longrightarrow> fmlookup (p_msgID p) t \<noteq> None \<Longrightarrow> fmlookup (p_msgID p') t \<noteq> None"
proof (induction xs arbitrary: p)
  case Nil
  then show ?case by simp
next
  case (Cons x xs)
  obtain a q where ex: "exec p x = (a, q)" by (cases "exec p x")
  with Cons.prems have a: "a = None" and r: "run q xs = Some p'"
    by (auto split: option.splits)
  from ex a Cons.prems(2) have "fmlookup (p_msgID q) t \<noteq> None"
    by (auto dest: exec_keeps_msgID)
  with r show ?case by (rule Cons.IH)
qed

lemma execV1_keeps_msgID:
  assumes inv: "invV1 p" and ex: "execV1 p x = (None, p')"
    and u: "fmlookup (p1_msgID p) u = Some j"
  shows "fmlookup (p1_msgID p') u = Some j"
proof (cases x)
  case (OpRegisterV1 k t)
  from inv u have "fmlookup (p1_msgInfo p) u \<noteq> None" unfolding invV1_def by blast
  with ex OpRegisterV1 have "t \<noteq> u" by (auto simp: RegisterV1_def split: if_splits)
  with ex OpRegisterV1 u show ?thesis by (auto simp: RegisterV1_def split: if_splits)
next
  case (OpSetRouterV1 t r)
  with ex u show ?thesis by (auto simp: SetRouterV1_def split: option.splits)
next
  case (OpSetHandlerV1 t h)
  with ex u show ?thesis by (auto simp: SetHandlerV1_def split: option.splits)
next
  case (OpSetRawHandlerV1 k h)
  with ex u show ?thesis by (auto simp: SetRawHandlerV1_def split: option.splits)
next
  case (OpSetByteOrderV1 b)
  with ex u show ?thesis by (auto simp: SetByteOrderV1_def)
qed

lemma runV1_keeps_msgID:
  "invV1 p \<Longrightarrow> runV1 p xs = Some p' \<Longrightarrow> fmlookup (p1_msgID p) u = Some j \<Longrightarrow>
     fmlookup (p1_msgID p') u = Some j"
proof (induction xs arbitrary: p)
  case Nil
  then show ?case by simp
next
  case (Cons x xs)
  obtain a q where ex: "execV1 p x = (a, q)" by (cases "execV1 p x")
  with Cons.prems have a: "a = None" and r: "runV1 q xs = Some p'"
    by (auto split: option.splits)
  from ex a Cons.prems have "invV1 q" and "fmlookup (p1_msgID q) u = Some j"
    by (auto dest: invV1_exec execV1_keeps_msgID)
  with r show ?case by (auto intro: Cons.IH)
qed





subsection \<open>Register\<close>

lemma RegisterV1_registered:
  "is_Ptr t \<Longrightarrow> fmlookup (p1_msgInfo p) t \<noteq> None \<Longrightarrow>
     RegisterV1 p k t = (Some (FatalAlreadyRegistered t), p)"
  by (cases t) (auto simp: RegisterV1_def)

lemma Register_registered:
  "is_Ptr t \<Longrightarrow> fmlookup (p_msgID p) t \<noteq> None \<Longrightarrow>
     Register p k t = (Some (FatalAlreadyRegistered t), p)"
  by (cases t) (auto simp: Register_def split: option.splits)

lemma RegisterV1_binds:
  "RegisterV1 p k t = (None, p') \<Longrightarrow>
     fmlookup (p1_msgID p') t = Some k \<and> fmlookup (p1_typeID p') k = Some t \<and>
     fmlookup (p1_msgInfo p') t =
       Some \<lparr>i1_msgType = t, i1_msgID = k, i1_msgRouter = None,
             i1_msgHandler = None, i1_msgRawHandler = None\<rparr>"
  by (auto simp: RegisterV1_def split: if_splits)

lemma RegisterV1_TooMany_iff:
  "fst (RegisterV1 p k t) = Some FatalTooMany \<longleftrightarrow>
     is_Ptr t \<and> fmlookup (p1_msgInfo p) t = None \<and> 65535 \<le> fcard (fmdom (p1_msgInfo p))"
  by (cases t) (auto simp: RegisterV1_def MaxUint16_def)

lemma Register_TooMany_iff:
  "fst (Register p k t) = Some FatalTooMany \<longleftrightarrow>
     is_Ptr t \<and> fmlookup (p_msgID p) t = None \<and> 65535 \<le> fcard (fmdom (p_msgInfo p))"
  by (cases t) (auto simp: Register_def MaxUint16_def split: option.splits)

subsection \<open>The example registries\<close>

lemma entryV1_reachable:
  "runV1 NewMsgIdProcessor
     [OpRegisterV1 1 (TPtr 0), OpSetRouterV1 (TPtr 0) r, OpSetHandlerV1 (TPtr 0) h,
      OpSetRawHandlerV1 1 rh] = Some (entryV1 r h rh)"
  by (simp add: NewMsgIdProcessor_def RegisterV1_def SetRouterV1_def SetHandlerV1_def
      SetRawHandlerV1_def entryV1_def MaxUint16_def fcard_fempty)

lemma entry_reachable:
  "run empty_Processor
     [OpRegister 0 (TPtr 0), OpSetRouter (TPtr 0) r, OpSetHandler (TPtr 0) h,
      OpSetRawHandler 0 rh] = Some (entry r h rh)"
  by (simp add: empty_Processor_def Register_def SetRouter_def SetHandler_def
      SetRawHandler_def entry_def MaxUint16_def fcard_fempty)

lemma reusedV1_reachable:
  "runV1 NewMsgIdProcessor [OpRegisterV1 1 (TPtr 0), OpRegisterV1 1 (TPtr 1)] = Some reusedV1"
  by (simp add: NewMsgIdProcessor_def RegisterV1_def reusedV1_def MaxUint16_def
      fcard_fempty fcard_finsert_if)


lemma firstV1_dom:
  "n \<le> 65535 \<Longrightarrow>
     fcard (fmdom (p1_msgInfo (firstV1 n))) = n \<and>
     (\<forall>t. fmlookup (p1_msgInfo (firstV1 n)) t \<noteq> None \<longrightarrow> (\<exists>j<n. t = TPtr j))"
proof (induction n)
  case 0
  then show ?case by (simp add: NewMsgIdProcessor_def fcard_fempty)
next
  case (Suc n)
  then have card: "fcard (fmdom (p1_msgInfo (firstV1 n))) = n"
    and dom: "\<And>t. fmlookup (p1_msgInfo (firstV1 n)) t \<noteq> None \<Longrightarrow> \<exists>j<n. t = TPtr j"
    by auto
  have fresh: "fmlookup (p1_msgInfo (firstV1 n)) (TPtr n) = None"
  proof (rule ccontr)
    assume "fmlookup (p1_msgInfo (firstV1 n)) (TPtr n) \<noteq> None"
    then obtain j where "j < n" and "TPtr n = TPtr j" using dom by blast
    then show False by simp
  qed
  from Suc.prems have room: "n < 65535" by simp
  show ?case
    using card fresh room dom
    by (auto simp: RegisterV1_def MaxUint16_def fcard_fmdom_fmupd_new less_Suc_eq split: if_splits)
qed

lemma firstV1_step:
  "n < 65535 \<Longrightarrow> RegisterV1 (firstV1 n) (of_nat n) (TPtr n) = (None, firstV1 (Suc n))"
proof -
  assume n: "n < 65535"
  then have "n \<le> 65535" by simp
  from firstV1_dom [OF this]
  have card: "fcard (fmdom (p1_msgInfo (firstV1 n))) = n"
    and dom: "\<And>t. fmlookup (p1_msgInfo (firstV1 n)) t \<noteq> None \<Longrightarrow> \<exists>j<n. t = TPtr j"
    by auto
  have fresh: "fmlookup (p1_msgInfo (firstV1 n)) (TPtr n) = None"
  proof (rule ccontr)
    assume "fmlookup (p1_msgInfo (firstV1 n)) (TPtr n) \<noteq> None"
    then obtain j where "j < n" and "TPtr n = TPtr j" using dom by blast
    then show False by simp
  qed
  have "fst (RegisterV1 (firstV1 n) (of_nat n) (TPtr n)) = None"
    using card fresh n by (simp add: RegisterV1_def MaxUint16_def)
  then show ?thesis by (simp add: prod_eq_iff)
qed

lemma firstV1_reachable:
  "n \<le> 65535 \<Longrightarrow> runV1 NewMsgIdProcessor (register_firstV1 n) = Some (firstV1 n)"
proof (induction n)
  case 0
  then show ?case by (simp add: register_firstV1_def)
next
  case (Suc n)
  then have ih: "runV1 NewMsgIdProcessor (register_firstV1 n) = Some (firstV1 n)"
    and n: "n < 65535" by simp_all
  have "register_firstV1 (Suc n) = register_firstV1 n @ [OpRegisterV1 (of_nat n) (TPtr n)]"
    by (simp add: register_firstV1_def)
  then show ?case
    using ih firstV1_step [OF n] by (simp add: runV1_append del: firstV1.simps)
qed

lemma firstV1_full:
  "fcard (fmdom (p1_msgInfo (firstV1 65535))) = 65535"
  "fmlookup (p1_msgInfo (firstV1 65535)) (TPtr 65535) = None"
  using firstV1_dom [of 65535] by auto

subsection \<open>Marshal, then Unmarshal\<close>

lemma roundtripV1_state:
  assumes i: "fmlookup (p1_msgInfo p) (TPtr n) = Some i"
    and ty: "i1_msgType i = TPtr n"
    and id: "fmlookup (p1_typeID p) (i1_msgID i) = Some (TPtr n)"
    and raw: "i1_msgRawHandler i = None"
  shows "UnmarshalV1 env p (concat (fst (MarshalV1 env p (PtrTo n c)))) =
     (Inr (PtrTo n (fst (proto_Unmarshal env (fst (proto_Marshal env (PtrTo n c))) n (zero env n))),
           map_option ErrProto
             (snd (proto_Unmarshal env (fst (proto_Marshal env (PtrTo n c))) n (zero env n)))),
      [ProtoUnmarshalCall (fst (proto_Marshal env (PtrTo n c))) (TPtr n)])"
proof -
  let ?hdr = "if p1_littleEndian p then LittleEndian_PutUint16 (i1_msgID i)
              else BigEndian_PutUint16 (i1_msgID i)"
  let ?data = "fst (proto_Marshal env (PtrTo n c))"
  have m: "concat (fst (MarshalV1 env p (PtrTo n c))) = ?hdr @ ?data"
    using i by (simp add: MarshalV1_def Let_def)
  have len: "\<not> length (?hdr @ ?data) < 2" by simp
  have rd: "read_idV1 p (?hdr @ ?data) = Some (i1_msgID i)"
    by (simp add: read_idV1_def BigEndian_roundtrip LittleEndian_roundtrip)
  have dr: "drop 2 (?hdr @ ?data) = ?data" by simp
  show ?thesis
    unfolding m UnmarshalV1_def
    using len rd dr i ty id raw by (simp add: Let_def)
qed

lemma roundtrip_state:
  assumes k: "fmlookup (p_msgID p) (TPtr n) = Some k"
    and i: "fmlookup (p_msgInfo p) k = Some info"
    and ty: "i_msgType info = TPtr n"
    and raw: "i_msgRawHandler info = None"
  shows "Unmarshal env p (concat (fst (Marshal env p (PtrTo n c)))) =
     (Inr (PtrTo n (fst (proto_Unmarshal env (fst (proto_Marshal env (PtrTo n c))) n (zero env n))),
           map_option ErrProto
             (snd (proto_Unmarshal env (fst (proto_Marshal env (PtrTo n c))) n (zero env n)))),
      [ProtoUnmarshalCall (fst (proto_Marshal env (PtrTo n c))) (TPtr n)])"
proof -
  let ?hdr = "if p_littleEndian p then LittleEndian_PutUint16 k else BigEndian_PutUint16 k"
  let ?data = "fst (proto_Marshal env (PtrTo n c))"
  have m: "concat (fst (Marshal env p (PtrTo n c))) = ?hdr @ ?data"
    using k by (simp add: Marshal_def Let_def)
  have len: "\<not> length (?hdr @ ?data) < 2" by simp
  have rd: "read_id p (?hdr @ ?data) = Some k"
    by (simp add: read_id_def BigEndian_roundtrip LittleEndian_roundtrip)
  have dr: "drop 2 (?hdr @ ?data) = ?data" by simp
  show ?thesis
    unfolding m Unmarshal_def
    using len rd dr i ty raw by (simp add: Let_def)
qed

subsection \<open>Route without attachments\<close>

text \<open>
  \<open>Route\<close> returns nil and calls nothing when the entry it finds has no attachment for the
  path taken. On a \<open>ProcessorV1\<close> configured from \<open>NewMsgIdProcessor\<close> the entry is always
  found.
\<close>

lemma Route_unattached_state:
  "(\<not> is_MsgRaw (msg ) \<and> fmlookup (p1_msgID p1) (TypeOf msg) = Some k1 \<and>
    fmlookup (p1_msgInfo p1) (TypeOf msg) = Some i1 \<and>
    i1_msgHandler i1 = None \<and> i1_msgRouter i1 = None \<longrightarrow>
      RouteV1 p1 msg ud = (Inr None, [])) \<and>
   (fmlookup (p1_typeID p1) k = Some t \<and> fmlookup (p1_msgInfo p1) t = Some j1 \<and>
    i1_msgRawHandler j1 = None \<longrightarrow>
      RouteV1 p1 (MsgRaw k raw :: 'c any) ud = (Inr None, [])) \<and>
   (\<not> is_MsgRaw msg \<and> fmlookup (p_msgID p) (TypeOf msg) = Some k2 \<and>
    fmlookup (p_msgInfo p) k2 = Some info \<and>
    i_msgHandler info = None \<and> i_msgRouter info = None \<longrightarrow>
      Route p msg ud = (Inr None, [])) \<and>
   (fmlookup (p_msgInfo p) j = Some info' \<and> i_msgRawHandler info' = None \<longrightarrow>
      Route p (MsgRaw j raw :: 'c any) ud = (Inr None, []))"
  by (cases msg) (simp_all add: RouteV1_def Route_def)

lemma RouteV1_unattached_reachable:
  assumes r: "runV1 NewMsgIdProcessor xs = Some p"
  shows "\<not> is_MsgRaw msg \<Longrightarrow> fmlookup (p1_msgID p) (TypeOf msg) = Some k \<Longrightarrow>
           \<exists>i. fmlookup (p1_msgInfo p) (TypeOf msg) = Some i \<and>
             (i1_msgHandler i = None \<and> i1_msgRouter i = None \<longrightarrow>
                RouteV1 p msg ud = (Inr None, []))"
    and "fmlookup (p1_typeID p) j = Some t \<Longrightarrow>
           \<exists>i. fmlookup (p1_msgInfo p) t = Some i \<and>
             (i1_msgRawHandler i = None \<longrightarrow> RouteV1 p (MsgRaw j raw) ud = (Inr None, []))"
proof -
  from r invV1_New have inv: "invV1 p" by (auto intro: invV1_run)
  {
    assume m: "\<not> is_MsgRaw msg" and k: "fmlookup (p1_msgID p) (TypeOf msg) = Some k"
    from inv k obtain i where i: "fmlookup (p1_msgInfo p) (TypeOf msg) = Some i"
      unfolding invV1_def by blast
    with m k show "\<exists>i. fmlookup (p1_msgInfo p) (TypeOf msg) = Some i \<and>
             (i1_msgHandler i = None \<and> i1_msgRouter i = None \<longrightarrow>
                RouteV1 p msg ud = (Inr None, []))"
      by (cases msg) (simp_all add: RouteV1_def)
  }
  {
    assume t: "fmlookup (p1_typeID p) j = Some t"
    with inv have "fmlookup (p1_msgID p) t = Some j" unfolding invV1_def by blast
    with inv obtain i where i: "fmlookup (p1_msgInfo p) t = Some i"
      unfolding invV1_def by blast
    with t show "\<exists>i. fmlookup (p1_msgInfo p) t = Some i \<and>
             (i1_msgRawHandler i = None \<longrightarrow> RouteV1 p (MsgRaw j raw) ud = (Inr None, []))"
      by (simp add: RouteV1_def)
  }
qed

section \<open>The claims\<close>

subsection \<open>C1: Marshal, then Unmarshal\<close>

text \<open>
  Claim C1, as amended. On a \<open>ProcessorV1\<close> configured from \<open>NewMsgIdProcessor\<close>, for a
  registered schema whose ID still decodes to it (\<open>typeID[msgID] = schema\<close>: no later
  \<open>Register\<close> reused the ID) and whose entry has no raw handler, \<open>Unmarshal\<close> of the
  concatenated segments of \<open>Marshal\<close> returns a value of the type of the message marshalled:
  a fresh message of that schema into which \<open>proto.Unmarshal\<close> has read the bytes
  \<open>proto.Marshal\<close> produced, with the error of \<open>proto.Unmarshal\<close>. On a \<open>Processor\<close> of
  package \<open>extend\<close> the same holds in every state in which \<open>msgInfo[msgID[schema]]\<close> is the
  entry of that schema and has no raw handler.
\<close>

theorem marshal_unmarshal_roundtrip:
  "(runV1 NewMsgIdProcessor xs = Some p1 \<and>
    fmlookup (p1_msgInfo p1) (TypeOf msg) = Some i1 \<and>
    fmlookup (p1_typeID p1) (i1_msgID i1) = Some (TypeOf msg) \<and>
    i1_msgRawHandler i1 = None \<longrightarrow>
      returned_type (fst (UnmarshalV1 env p1 (concat (fst (MarshalV1 env p1 msg))))) =
        Some (TypeOf msg) \<and>
      (\<forall>n c. msg = PtrTo n c \<longrightarrow>
         UnmarshalV1 env p1 (concat (fst (MarshalV1 env p1 msg))) =
           (Inr (PtrTo n (fst (proto_Unmarshal env (fst (proto_Marshal env msg)) n (zero env n))),
                 map_option ErrProto
                   (snd (proto_Unmarshal env (fst (proto_Marshal env msg)) n (zero env n)))),
            [ProtoUnmarshalCall (fst (proto_Marshal env msg)) (TPtr n)]))) \<and>
   (is_Ptr (TypeOf msg) \<and>
    fmlookup (p_msgID p) (TypeOf msg) = Some k \<and>
    fmlookup (p_msgInfo p) k = Some info \<and>
    i_msgType info = TypeOf msg \<and>
    i_msgRawHandler info = None \<longrightarrow>
      returned_type (fst (Unmarshal env p (concat (fst (Marshal env p msg))))) =
        Some (TypeOf msg) \<and>
      (\<forall>n c. msg = PtrTo n c \<longrightarrow>
         Unmarshal env p (concat (fst (Marshal env p msg))) =
           (Inr (PtrTo n (fst (proto_Unmarshal env (fst (proto_Marshal env msg)) n (zero env n))),
                 map_option ErrProto
                   (snd (proto_Unmarshal env (fst (proto_Marshal env msg)) n (zero env n)))),
            [ProtoUnmarshalCall (fst (proto_Marshal env msg)) (TPtr n)])))"
proof (intro conjI impI allI)
  assume h: "runV1 NewMsgIdProcessor xs = Some p1 \<and>
    fmlookup (p1_msgInfo p1) (TypeOf msg) = Some i1 \<and>
    fmlookup (p1_typeID p1) (i1_msgID i1) = Some (TypeOf msg) \<and>
    i1_msgRawHandler i1 = None"
  with invV1_New have inv: "invV1 p1" by (auto intro: invV1_run)
  with h have ty: "i1_msgType i1 = TypeOf msg" and ptr: "is_Ptr (TypeOf msg)"
    unfolding invV1_def by blast+
  from ptr obtain n c where msg: "msg = PtrTo n c" by (auto dest: is_Ptr_TypeOf)
  from h ty have a: "fmlookup (p1_msgInfo p1) (TPtr n) = Some i1"
    and b: "i1_msgType i1 = TPtr n"
    and c: "fmlookup (p1_typeID p1) (i1_msgID i1) = Some (TPtr n)"
    and d: "i1_msgRawHandler i1 = None"
    by (simp_all add: msg)
  note rt = roundtripV1_state [OF a b c d, of env c]
  show "returned_type (fst (UnmarshalV1 env p1 (concat (fst (MarshalV1 env p1 msg))))) =
        Some (TypeOf msg)"
    by (simp add: msg rt)
  fix n' c' assume "msg = PtrTo n' c'"
  with msg rt show "UnmarshalV1 env p1 (concat (fst (MarshalV1 env p1 msg))) =
           (Inr (PtrTo n' (fst (proto_Unmarshal env (fst (proto_Marshal env msg)) n' (zero env n'))),
                 map_option ErrProto
                   (snd (proto_Unmarshal env (fst (proto_Marshal env msg)) n' (zero env n')))),
            [ProtoUnmarshalCall (fst (proto_Marshal env msg)) (TPtr n')])"
    by simp
next
  assume h: "is_Ptr (TypeOf msg) \<and>
    fmlookup (p_msgID p) (TypeOf msg) = Some k \<and>
    fmlookup (p_msgInfo p) k = Some info \<and>
    i_msgType info = TypeOf msg \<and>
    i_msgRawHandler info = None"
  then obtain n c where msg: "msg = PtrTo n c" by (auto dest: is_Ptr_TypeOf)
  from h have a: "fmlookup (p_msgID p) (TPtr n) = Some k"
    and b: "fmlookup (p_msgInfo p) k = Some info"
    and c: "i_msgType info = TPtr n"
    and d: "i_msgRawHandler info = None"
    by (simp_all add: msg)
  note rt = roundtrip_state [OF a b c d, of env c]
  show "returned_type (fst (Unmarshal env p (concat (fst (Marshal env p msg))))) =
        Some (TypeOf msg)"
    by (simp add: msg rt)
  fix n' c' assume "msg = PtrTo n' c'"
  with msg rt show "Unmarshal env p (concat (fst (Marshal env p msg))) =
           (Inr (PtrTo n' (fst (proto_Unmarshal env (fst (proto_Marshal env msg)) n' (zero env n'))),
                 map_option ErrProto
                   (snd (proto_Unmarshal env (fst (proto_Marshal env msg)) n' (zero env n')))),
            [ProtoUnmarshalCall (fst (proto_Marshal env msg)) (TPtr n')])"
    by simp
qed

theorem marshal_unmarshal_roundtrip_witness:
  "UnmarshalV1 example_proto (entryV1 None (Some 7) None)
     (concat (fst (MarshalV1 example_proto (entryV1 None (Some 7) None) (PtrTo 0 [7])))) =
     (Inr (PtrTo 0 [7], None), [ProtoUnmarshalCall [7] (TPtr 0)]) \<and>
   Unmarshal example_proto (entry None (Some 7) None)
     (concat (fst (Marshal example_proto (entry None (Some 7) None) (PtrTo 0 [7])))) =
     (Inr (PtrTo 0 [7], None), [ProtoUnmarshalCall [7] (TPtr 0)])"
  using marshal_unmarshal_roundtrip
    [where xs = "[OpRegisterV1 1 (TPtr 0), OpSetRouterV1 (TPtr 0) None,
         OpSetHandlerV1 (TPtr 0) (Some 7), OpSetRawHandlerV1 1 None]"
       and ?p1.0 = "entryV1 None (Some 7) None" and msg = "PtrTo 0 [7]"
       and ?i1.0 = "\<lparr>i1_msgType = TPtr 0, i1_msgID = 1, i1_msgRouter = None,
          i1_msgHandler = Some 7, i1_msgRawHandler = None\<rparr>"
       and env = example_proto
       and p = "entry None (Some 7) None" and k = 0
       and info = "\<lparr>i_msgType = TPtr 0, i_msgID = 0, i_msgRouter = None,
          i_msgHandler = Some 7, i_msgRawHandler = None\<rparr>"]
    entryV1_reachable [of None "Some 7" None]
  by (simp add: entryV1_def entry_def example_proto_def)

text \<open>
  Claim C1 as stated fails: with a raw handler attached for the ID, \<open>Unmarshal\<close> returns a
  \<open>MsgRaw\<close>; after \<open>Register(1, *S\<^sub>0)\<close> and \<open>Register(1, *S\<^sub>1)\<close> on \<open>ProcessorV1\<close> the frame of
  an \<open>*S\<^sub>0\<close> decodes to an \<open>*S\<^sub>1\<close>; after \<open>Register(1, *S\<^sub>0)\<close> on \<open>Processor\<close> the frame of an
  \<open>*S\<^sub>0\<close> is rejected, ID 1 being unknown to \<open>msgInfo\<close>.
\<close>

theorem marshal_unmarshal_roundtrip_counterexample:
  "runV1 NewMsgIdProcessor [OpRegisterV1 1 (TPtr 0), OpSetRawHandlerV1 1 (Some 5)] =
     Some (entryV1 None None (Some 5)) \<and>
   TypeOf (PtrTo 0 [] :: byte list any) = TPtr 0 \<and>
   returned_type (fst (UnmarshalV1 example_proto (entryV1 None None (Some 5))
     (concat (fst (MarshalV1 example_proto (entryV1 None None (Some 5)) (PtrTo 0 [])))))) =
     Some TMsgRaw \<and>
   runV1 NewMsgIdProcessor [OpRegisterV1 1 (TPtr 0), OpRegisterV1 1 (TPtr 1)] = Some reusedV1 \<and>
   returned_type (fst (UnmarshalV1 example_proto reusedV1
     (concat (fst (MarshalV1 example_proto reusedV1 (PtrTo 0 [])))))) = Some (TPtr 1) \<and>
   run empty_Processor [OpRegister 1 (TPtr 0)] = Some slipped \<and>
   Unmarshal example_proto slipped
     (concat (fst (Marshal example_proto slipped (PtrTo 0 [])))) =
     (Inr (AnyNil, Some (ErrUnmarshalIDNotRegistered 1)), [])"
  by (simp add: NewMsgIdProcessor_def RegisterV1_def SetRawHandlerV1_def entryV1_def
      reusedV1_def MaxUint16_def fcard_fempty fcard_finsert_if
      empty_Processor_def Register_def slipped_def
      UnmarshalV1_def MarshalV1_def Unmarshal_def Marshal_def read_idV1_def read_id_def
      BigEndian_PutUint16_def example_proto_def Let_def)

subsection \<open>C2: what Register binds\<close>

text \<open>
  Claim C2, as amended. A successful \<open>Register(id, schema)\<close> on \<open>ProcessorV1\<close> binds the
  schema to the ID in \<open>msgID\<close>, the ID to the schema in \<open>typeID\<close>, and stores the entry of the
  schema in \<open>msgInfo\<close>; on \<open>Processor\<close> it binds the schema to the ID in \<open>msgID\<close>. On a
  \<open>ProcessorV1\<close> configured from \<open>NewMsgIdProcessor\<close>, a schema bound to an ID has an entry
  that records this schema and this ID, it keeps this ID through every further successful
  configuration call, and an ID that \<open>typeID\<close> binds to a schema is the ID of that schema.
  Whether the ID is already held by another schema is not checked.
\<close>

theorem registryV1_binding:
  "(RegisterV1 p k t = (None, p') \<longrightarrow>
      fmlookup (p1_msgID p') t = Some k \<and> fmlookup (p1_typeID p') k = Some t \<and>
      fmlookup (p1_msgInfo p') t =
        Some \<lparr>i1_msgType = t, i1_msgID = k, i1_msgRouter = None,
              i1_msgHandler = None, i1_msgRawHandler = None\<rparr>) \<and>
   (runV1 NewMsgIdProcessor xs = Some q \<and> fmlookup (p1_msgID q) u = Some j \<longrightarrow>
      (\<exists>i. fmlookup (p1_msgInfo q) u = Some i \<and> i1_msgType i = u \<and> i1_msgID i = j) \<and>
      (runV1 q ys = Some q' \<longrightarrow> fmlookup (p1_msgID q') u = Some j)) \<and>
   (runV1 NewMsgIdProcessor xs = Some q \<and> fmlookup (p1_typeID q) j' = Some u' \<longrightarrow>
      fmlookup (p1_msgID q) u' = Some j') \<and>
   (Register r k2 t2 = (None, r') \<longrightarrow> fmlookup (p_msgID r') t2 = Some k2)"
proof (intro conjI impI)
  assume "Register r k2 t2 = (None, r')"
  then show "fmlookup (p_msgID r') t2 = Some k2"
    by (auto simp: Register_def split: if_splits option.splits)
next
  assume "RegisterV1 p k t = (None, p')"
  from RegisterV1_binds [OF this]
  show "fmlookup (p1_msgID p') t = Some k" "fmlookup (p1_typeID p') k = Some t"
    "fmlookup (p1_msgInfo p') t =
        Some \<lparr>i1_msgType = t, i1_msgID = k, i1_msgRouter = None,
              i1_msgHandler = None, i1_msgRawHandler = None\<rparr>"
    by simp_all
next
  assume h: "runV1 NewMsgIdProcessor xs = Some q \<and> fmlookup (p1_msgID q) u = Some j"
  with invV1_New have inv: "invV1 q" by (auto intro: invV1_run)
  from h inv obtain i where i: "fmlookup (p1_msgInfo q) u = Some i"
    unfolding invV1_def by blast
  with inv h have "i1_msgType i = u \<and> i1_msgID i = j" unfolding invV1_def by force
  with i show "\<exists>i. fmlookup (p1_msgInfo q) u = Some i \<and> i1_msgType i = u \<and> i1_msgID i = j"
    by blast
  assume "runV1 q ys = Some q'"
  with inv h show "fmlookup (p1_msgID q') u = Some j" by (auto intro: runV1_keeps_msgID)
next
  assume h: "runV1 NewMsgIdProcessor xs = Some q \<and> fmlookup (p1_typeID q) j' = Some u'"
  with invV1_New have inv: "invV1 q" by (auto intro: invV1_run)
  with h show "fmlookup (p1_msgID q) u' = Some j'" unfolding invV1_def by blast
qed

theorem registryV1_binding_witness:
  "runV1 NewMsgIdProcessor [OpRegisterV1 1 (TPtr 0)] = Some (entryV1 None None None) \<and>
   RegisterV1 (entryV1 None None None) 1 (TPtr 1) = (None, reusedV1) \<and>
   fmlookup (p1_msgID reusedV1) (TPtr 1) = Some 1 \<and>
   fmlookup (p1_typeID reusedV1) 1 = Some (TPtr 1) \<and>
   fmlookup (p1_msgID (entryV1 None None None)) (TPtr 0) = Some 1 \<and>
   runV1 (entryV1 None None None) [OpRegisterV1 1 (TPtr 1)] = Some reusedV1 \<and>
   fmlookup (p1_msgID reusedV1) (TPtr 0) = Some 1 \<and>
   Register empty_Processor 1 (TPtr 0) = (None, slipped) \<and>
   fmlookup (p_msgID slipped) (TPtr 0) = Some 1"
proof -
  have d: "Register empty_Processor 1 (TPtr 0) = (None, slipped)"
    by (simp add: empty_Processor_def Register_def slipped_def MaxUint16_def fcard_fempty)
  have a: "runV1 NewMsgIdProcessor [OpRegisterV1 1 (TPtr 0)] = Some (entryV1 None None None)"
    by (simp add: NewMsgIdProcessor_def RegisterV1_def entryV1_def MaxUint16_def fcard_fempty)
  have b: "RegisterV1 (entryV1 None None None) 1 (TPtr 1) = (None, reusedV1)"
    by (simp add: RegisterV1_def entryV1_def reusedV1_def MaxUint16_def
        fcard_fempty fcard_finsert_if)
  have c: "fmlookup (p1_msgID (entryV1 None None None)) (TPtr 0) = Some 1"
    "fmlookup (p1_typeID (entryV1 None None None)) 1 = Some (TPtr 0)"
    by (simp_all add: entryV1_def)
  from a b c d registryV1_binding
    [where p = "entryV1 None None None" and k = 1 and t = "TPtr 1" and p' = reusedV1
       and xs = "[OpRegisterV1 1 (TPtr 0)]" and q = "entryV1 None None None"
       and u = "TPtr 0" and j = 1 and ys = "[OpRegisterV1 1 (TPtr 1)]" and q' = reusedV1
       and j' = 1 and u' = "TPtr 0"
       and r = empty_Processor and ?k2.0 = 1 and ?t2.0 = "TPtr 0" and r' = slipped]
  show ?thesis by simp
qed

text \<open>
  Claim C2 as stated fails: on \<open>ProcessorV1\<close>, \<open>Register(1, *S\<^sub>1)\<close> after \<open>Register(1, *S\<^sub>0)\<close>
  succeeds, rebinds ID 1 from \<open>*S\<^sub>0\<close> to \<open>*S\<^sub>1\<close> in \<open>typeID\<close>, and leaves both schemas bound to
  ID 1 in \<open>msgID\<close>; on \<open>Processor\<close>, \<open>Register(1, *S\<^sub>0)\<close> leaves ID 1 unbound in \<open>msgInfo\<close>.
\<close>

theorem registryV1_binding_counterexample:
  "runV1 NewMsgIdProcessor [OpRegisterV1 1 (TPtr 0)] = Some (entryV1 None None None) \<and>
   fmlookup (p1_typeID (entryV1 None None None)) 1 = Some (TPtr 0) \<and>
   RegisterV1 (entryV1 None None None) 1 (TPtr 1) = (None, reusedV1) \<and>
   fmlookup (p1_typeID reusedV1) 1 = Some (TPtr 1) \<and>
   fmlookup (p1_msgID reusedV1) (TPtr 0) = Some 1 \<and>
   fmlookup (p1_msgID reusedV1) (TPtr 1) = Some 1 \<and>
   TPtr 0 \<noteq> TPtr 1 \<and>
   Register empty_Processor 1 (TPtr 0) = (None, slipped) \<and>
   fmlookup (p_msgInfo slipped) 1 = None"
  by (simp add: NewMsgIdProcessor_def RegisterV1_def entryV1_def reusedV1_def MaxUint16_def
      fcard_fempty fcard_finsert_if empty_Processor_def Register_def slipped_def)

subsection \<open>C3: the capacity of the registry\<close>

text \<open>
  Claim C3, as amended. \<open>Register\<close> ends the process with "too many protobuf messages"
  exactly when the schema is a pointer type, is not registered, and \<open>msgInfo\<close> holds 65535
  (\<open>math.MaxUint16\<close>) entries or more. A \<open>ProcessorV1\<close> configured from \<open>NewMsgIdProcessor\<close>
  never holds more than 65535 entries, and 65535 successful registrations reach that number.
\<close>

theorem register_capacity:
  "(fst (RegisterV1 p1 k t) = Some FatalTooMany \<longleftrightarrow>
      is_Ptr t \<and> fmlookup (p1_msgInfo p1) t = None \<and> 65535 \<le> fcard (fmdom (p1_msgInfo p1))) \<and>
   (fst (Register p k t) = Some FatalTooMany \<longleftrightarrow>
      is_Ptr t \<and> fmlookup (p_msgID p) t = None \<and> 65535 \<le> fcard (fmdom (p_msgInfo p))) \<and>
   (runV1 NewMsgIdProcessor xs = Some q \<longrightarrow> fcard (fmdom (p1_msgInfo q)) \<le> 65535) \<and>
   runV1 NewMsgIdProcessor (register_firstV1 65535) = Some (firstV1 65535) \<and>
   fcard (fmdom (p1_msgInfo (firstV1 65535))) = 65535"
proof (intro conjI impI)
  show "fst (RegisterV1 p1 k t) = Some FatalTooMany \<longleftrightarrow>
      is_Ptr t \<and> fmlookup (p1_msgInfo p1) t = None \<and> 65535 \<le> fcard (fmdom (p1_msgInfo p1))"
    by (rule RegisterV1_TooMany_iff)
  show "fst (Register p k t) = Some FatalTooMany \<longleftrightarrow>
      is_Ptr t \<and> fmlookup (p_msgID p) t = None \<and> 65535 \<le> fcard (fmdom (p_msgInfo p))"
    by (rule Register_TooMany_iff)
  show "runV1 NewMsgIdProcessor (register_firstV1 65535) = Some (firstV1 65535)"
    by (rule firstV1_reachable) simp
  show "fcard (fmdom (p1_msgInfo (firstV1 65535))) = 65535"
    by (rule firstV1_full)
next
  assume "runV1 NewMsgIdProcessor xs = Some q"
  with invV1_New have "invV1 q" by (rule invV1_run)
  then show "fcard (fmdom (p1_msgInfo q)) \<le> 65535"
    by (simp add: invV1_def MaxUint16_def)
qed

theorem register_capacity_witness:
  "runV1 NewMsgIdProcessor [OpRegisterV1 1 (TPtr 0)] = Some (entryV1 None None None) \<and>
   fcard (fmdom (p1_msgInfo (entryV1 None None None))) \<le> 65535 \<and>
   fst (RegisterV1 (entryV1 None None None) 2 (TPtr 1)) \<noteq> Some FatalTooMany"
proof -
  have r: "runV1 NewMsgIdProcessor [OpRegisterV1 1 (TPtr 0)] = Some (entryV1 None None None)"
    by (simp add: NewMsgIdProcessor_def RegisterV1_def entryV1_def MaxUint16_def fcard_fempty)
  have c: "fcard (fmdom (p1_msgInfo (entryV1 None None None))) = 1"
    by (simp add: entryV1_def fcard_finsert_if fcard_fempty)
  from r c register_capacity
    [where xs = "[OpRegisterV1 1 (TPtr 0)]" and q = "entryV1 None None None"
       and ?p1.0 = "entryV1 None None None" and k = 2 and t = "TPtr 1"]
  show ?thesis by simp
qed

text \<open>
  Claim C3 as stated fails: after 65535 successful registrations the registry holds fewer
  than 65536 entries, and \<open>Register\<close> of a fresh pointer type fails the capacity check.
\<close>

theorem register_capacity_counterexample:
  "fcard (fmdom (p1_msgInfo (firstV1 65535))) < 65536 \<and>
   is_Ptr (TPtr 65535) \<and>
   fmlookup (p1_msgInfo (firstV1 65535)) (TPtr 65535) = None \<and>
   RegisterV1 (firstV1 65535) 65535 (TPtr 65535) = (Some FatalTooMany, firstV1 65535)"
  using firstV1_full by (simp add: RegisterV1_def MaxUint16_def del: firstV1.simps)

subsection \<open>C4: handler, then router\<close>

text \<open>
  Claim C4. For a message that is not a \<open>MsgRaw\<close>, whose type is registered and whose
  entry has a local handler \<open>h\<close> and a router \<open>r\<close>, \<open>Route\<close> returns nil after exactly
  two calls: first the handler with \<open>(msg, userData)\<close>, then \<open>r.Go(msgType, msg, userData)\<close>.
\<close>

theorem route_typed_handler_then_router:
  "(\<not> is_MsgRaw msg \<and> fmlookup (p1_msgID p1) (TypeOf msg) = Some k1 \<and>
    fmlookup (p1_msgInfo p1) (TypeOf msg) = Some i1 \<and>
    i1_msgHandler i1 = Some h1 \<and> i1_msgRouter i1 = Some r1 \<longrightarrow>
      RouteV1 p1 msg ud =
        (Inr None, [HandlerCall h1 [ArgMsg msg, ArgUser ud],
                    RouterGo r1 (TypeOf msg) [ArgMsg msg, ArgUser ud]])) \<and>
   (\<not> is_MsgRaw msg \<and> fmlookup (p_msgID p) (TypeOf msg) = Some k \<and>
    fmlookup (p_msgInfo p) k = Some info \<and>
    i_msgHandler info = Some h \<and> i_msgRouter info = Some r \<longrightarrow>
      Route p msg ud =
        (Inr None, [HandlerCall h [ArgMsg msg, ArgUser ud],
                    RouterGo r (TypeOf msg) [ArgMsg msg, ArgUser ud]]))"
  by (cases msg) (simp_all add: RouteV1_def Route_def)

theorem route_typed_handler_then_router_witness:
  "RouteV1 (entryV1 (Some 9) (Some 7) None) (PtrTo 0 [7 :: byte]) ''ctx'' =
     (Inr None, [HandlerCall 7 [ArgMsg (PtrTo 0 [7]), ArgUser ''ctx''],
                 RouterGo 9 (TPtr 0) [ArgMsg (PtrTo 0 [7]), ArgUser ''ctx'']]) \<and>
   Route (entry (Some 9) (Some 7) None) (PtrTo 0 [7 :: byte]) ''ctx'' =
     (Inr None, [HandlerCall 7 [ArgMsg (PtrTo 0 [7]), ArgUser ''ctx''],
                 RouterGo 9 (TPtr 0) [ArgMsg (PtrTo 0 [7]), ArgUser ''ctx'']])"
  using route_typed_handler_then_router
    [of "PtrTo 0 [7 :: byte]" "entryV1 (Some 9) (Some 7) None" 1
        "\<lparr>i1_msgType = TPtr 0, i1_msgID = 1, i1_msgRouter = Some 9,
          i1_msgHandler = Some 7, i1_msgRawHandler = None\<rparr>" 7 9 "''ctx''"
        "entry (Some 9) (Some 7) None" 0
        "\<lparr>i_msgType = TPtr 0, i_msgID = 0, i_msgRouter = Some 9,
          i_msgHandler = Some 7, i_msgRawHandler = None\<rparr>" 7 9]
  by (simp add: entryV1_def entry_def)

subsection \<open>C5: raw passthrough\<close>

text \<open>
  Claim C5. When the header of an input of at least two bytes reads as ID \<open>k\<close> and the
  entry found for \<open>k\<close> has a raw handler, \<open>Unmarshal\<close> returns \<open>MsgRaw{k, data[2:]}\<close> with
  a nil error and does not call \<open>proto.Unmarshal\<close>.
\<close>

theorem unmarshal_raw_passthrough:
  "(2 \<le> length data \<and> read_idV1 p1 data = Some k \<and>
    fmlookup (p1_typeID p1) k = Some t \<and> fmlookup (p1_msgInfo p1) t = Some i1 \<and>
    i1_msgRawHandler i1 = Some h1 \<longrightarrow>
      UnmarshalV1 env p1 data = (Inr (MsgRaw k (drop 2 data), None), [])) \<and>
   (2 \<le> length data' \<and> read_id p data' = Some j \<and>
    fmlookup (p_msgInfo p) j = Some info \<and> i_msgRawHandler info = Some h \<longrightarrow>
      Unmarshal env p data' = (Inr (MsgRaw j (drop 2 data'), None), []))"
  by (simp add: UnmarshalV1_def Unmarshal_def)

theorem unmarshal_raw_passthrough_witness:
  "read_idV1 (entryV1 None None (Some 5)) [0, 1, 10, 20] = Some 1 \<and>
   UnmarshalV1 example_proto (entryV1 None None (Some 5)) [0, 1, 10, 20] =
     (Inr (MsgRaw 1 [10, 20], None), []) \<and>
   read_id (entry None None (Some 5)) [0, 0, 10, 20] = Some 0 \<and>
   Unmarshal example_proto (entry None None (Some 5)) [0, 0, 10, 20] =
     (Inr (MsgRaw 0 [10, 20], None), [])"
  using unmarshal_raw_passthrough
    [where data = "[0, 1, 10, 20]" and ?p1.0 = "entryV1 None None (Some 5)" and k = 1
       and t = "TPtr 0"
       and ?i1.0 = "\<lparr>i1_msgType = TPtr 0, i1_msgID = 1, i1_msgRouter = None,
          i1_msgHandler = None, i1_msgRawHandler = Some 5\<rparr>" and ?h1.0 = 5
       and data' = "[0, 0, 10, 20]" and p = "entry None None (Some 5)" and j = 0
       and info = "\<lparr>i_msgType = TPtr 0, i_msgID = 0, i_msgRouter = None,
          i_msgHandler = None, i_msgRawHandler = Some 5\<rparr>" and h = 5
       and env = example_proto]
  by (simp add: entryV1_def entry_def read_idV1_def read_id_def)

subsection \<open>C6: registering twice\<close>

text \<open>
  Claim C6. Once \<open>Register\<close> has succeeded for a schema, and whatever configuration calls
  have succeeded since, \<open>Register\<close> of the same schema (under any ID) ends the process
  with "already registered", and the processor at that moment is the one the call
  started with.
\<close>

theorem register_twice_rejected:
  "(RegisterV1 p0 k t = (None, p1) \<and> runV1 p1 xs1 = Some p2 \<longrightarrow>
      RegisterV1 p2 k' t = (Some (FatalAlreadyRegistered t), p2)) \<and>
   (Register q0 j u = (None, q1) \<and> run q1 xs = Some q2 \<longrightarrow>
      Register q2 j' u = (Some (FatalAlreadyRegistered u), q2))"
proof (intro conjI impI)
  assume h: "RegisterV1 p0 k t = (None, p1) \<and> runV1 p1 xs1 = Some p2"
  then have ptr: "is_Ptr t" and "fmlookup (p1_msgInfo p1) t \<noteq> None"
    by (auto simp: RegisterV1_def split: if_splits)
  with h have "fmlookup (p1_msgInfo p2) t \<noteq> None"
    by (auto dest: runV1_keeps_msgInfo)
  with ptr show "RegisterV1 p2 k' t = (Some (FatalAlreadyRegistered t), p2)"
    by (rule RegisterV1_registered)
next
  assume h: "Register q0 j u = (None, q1) \<and> run q1 xs = Some q2"
  then have ptr: "is_Ptr u" and "fmlookup (p_msgID q1) u \<noteq> None"
    by (auto simp: Register_def split: if_splits option.splits)
  with h have "fmlookup (p_msgID q2) u \<noteq> None"
    by (auto dest: run_keeps_msgID)
  with ptr show "Register q2 j' u = (Some (FatalAlreadyRegistered u), q2)"
    by (rule Register_registered)
qed

theorem register_twice_rejected_witness:
  "RegisterV1 NewMsgIdProcessor 1 (TPtr 0) = (None, entryV1 None None None) \<and>
   runV1 (entryV1 None None None) [OpSetHandlerV1 (TPtr 0) (Some 7)] = Some (entryV1 None (Some 7) None) \<and>
   RegisterV1 (entryV1 None (Some 7) None) 2 (TPtr 0) =
     (Some (FatalAlreadyRegistered (TPtr 0)), entryV1 None (Some 7) None) \<and>
   Register empty_Processor 0 (TPtr 0) = (None, entry None None None) \<and>
   run (entry None None None) [OpSetHandler (TPtr 0) (Some 7)] = Some (entry None (Some 7) None) \<and>
   Register (entry None (Some 7) None) 2 (TPtr 0) =
     (Some (FatalAlreadyRegistered (TPtr 0)), entry None (Some 7) None)"
proof -
  have a: "RegisterV1 NewMsgIdProcessor 1 (TPtr 0) = (None, entryV1 None None None)"
    by (simp add: NewMsgIdProcessor_def RegisterV1_def entryV1_def MaxUint16_def fcard_fempty)
  have b: "runV1 (entryV1 None None None) [OpSetHandlerV1 (TPtr 0) (Some 7)] = Some (entryV1 None (Some 7) None)"
    by (simp add: SetHandlerV1_def entryV1_def)
  have c: "Register empty_Processor 0 (TPtr 0) = (None, entry None None None)"
    by (simp add: empty_Processor_def Register_def entry_def MaxUint16_def fcard_fempty)
  have d: "run (entry None None None) [OpSetHandler (TPtr 0) (Some 7)] = Some (entry None (Some 7) None)"
    by (simp add: SetHandler_def entry_def)
  from a b c d
    register_twice_rejected [where ?p0.0 = NewMsgIdProcessor and k = 1 and t = "TPtr 0"
      and ?p1.0 = "entryV1 None None None" and ?xs1.0 = "[OpSetHandlerV1 (TPtr 0) (Some 7)]"
      and ?p2.0 = "entryV1 None (Some 7) None" and k' = 2
      and ?q0.0 = empty_Processor and j = 0 and u = "TPtr 0"
      and ?q1.0 = "entry None None None" and xs = "[OpSetHandler (TPtr 0) (Some 7)]"
      and ?q2.0 = "entry None (Some 7) None" and j' = 2]
  show ?thesis by simp
qed

subsection \<open>C7: short input\<close>

text \<open>
  Claim C7. On an input of 0 or 1 bytes \<open>Unmarshal\<close> of either processor returns no
  message and the error "protobuf data too short", whatever the registry and the byte
  order hold: the header is not read (reading it there is the index-out-of-range panic,
  \<open>None\<close>), and \<open>proto.Unmarshal\<close> is not called.
\<close>

theorem unmarshal_too_short:
  "length data < 2 \<Longrightarrow>
     UnmarshalV1 env p1 data = (Inr (AnyNil, Some ErrDataTooShort), []) \<and>
     Unmarshal env p data = (Inr (AnyNil, Some ErrDataTooShort), []) \<and>
     read_idV1 p1 data = None \<and> read_id p data = None"
proof -
  assume short: "length data < 2"
  then have "data = [] \<or> (\<exists>b. data = [b])"
    by (cases data) (auto simp: length_Suc_conv)
  then have "read_idV1 p1 data = None" and "read_id p data = None"
    by (auto simp: read_idV1_def read_id_def)
  with short show ?thesis by (simp add: UnmarshalV1_def Unmarshal_def)
qed

theorem unmarshal_too_short_witness:
  "length [1 :: byte] < 2 \<and>
   UnmarshalV1 example_proto (entryV1 None None None) [1] = (Inr (AnyNil, Some ErrDataTooShort), []) \<and>
   Unmarshal example_proto (entry None None None) [1] = (Inr (AnyNil, Some ErrDataTooShort), []) \<and>
   read_idV1 (entryV1 None None None) [1] = None"
  using unmarshal_too_short [of "[1]" example_proto "entryV1 None None None" "entry None None None"]
  by simp

subsection \<open>C8: the default byte order\<close>



subsection \<open>C9: no router on the raw path\<close>

text \<open>
  Claim C9. \<open>Route\<close> of a \<open>MsgRaw\<close> never calls a router: in every state its calls
  contain no \<open>Go\<close>, and when the entry of the ID is found the only call is the one of the raw
  handler, if the entry has one, with \<open>(msgID, msgRawData, userData)\<close>.
\<close>

theorem route_raw_never_forwards:
  "filter is_RouterGo (snd (RouteV1 p1 (MsgRaw k raw :: 'c any) (ud :: 'u))) = [] \<and>
   filter is_RouterGo (snd (Route p (MsgRaw j raw :: 'c any) ud)) = [] \<and>
   (fmlookup (p1_typeID p1) k = Some t \<and> fmlookup (p1_msgInfo p1) t = Some i1 \<longrightarrow>
      RouteV1 p1 (MsgRaw k raw :: 'c any) ud =
        (Inr None, case i1_msgRawHandler i1 of None \<Rightarrow> []
                   | Some h \<Rightarrow> [HandlerCall h [ArgID k, ArgData raw, ArgUser ud]])) \<and>
   (fmlookup (p_msgInfo p) j = Some info \<longrightarrow>
      Route p (MsgRaw j raw :: 'c any) ud =
        (Inr None, case i_msgRawHandler info of None \<Rightarrow> []
                   | Some h \<Rightarrow> [HandlerCall h [ArgID j, ArgData raw, ArgUser ud]]))"
  by (simp add: RouteV1_def Route_def split: option.splits)

theorem route_raw_never_forwards_witness:
  "i1_msgRouter (the (fmlookup (p1_msgInfo (entryV1 (Some 9) (Some 7) (Some 5))) (TPtr 0))) = Some 9 \<and>
   RouteV1 (entryV1 (Some 9) (Some 7) (Some 5)) (MsgRaw 1 [3, 4] :: byte list any) ''ctx'' =
     (Inr None, [HandlerCall 5 [ArgID 1, ArgData [3, 4], ArgUser ''ctx'']]) \<and>
   i_msgRouter (the (fmlookup (p_msgInfo (entry (Some 9) (Some 7) (Some 5))) 0)) = Some 9 \<and>
   Route (entry (Some 9) (Some 7) (Some 5)) (MsgRaw 0 [3, 4] :: byte list any) ''ctx'' =
     (Inr None, [HandlerCall 5 [ArgID 0, ArgData [3, 4], ArgUser ''ctx'']])"
  using route_raw_never_forwards
    [where ?p1.0 = "entryV1 (Some 9) (Some 7) (Some 5)" and k = 1 and t = "TPtr 0"
       and ?i1.0 = "\<lparr>i1_msgType = TPtr 0, i1_msgID = 1, i1_msgRouter = Some 9,
          i1_msgHandler = Some 7, i1_msgRawHandler = Some 5\<rparr>"
       and p = "entry (Some 9) (Some 7) (Some 5)" and j = 0
       and info = "\<lparr>i_msgType = TPtr 0, i_msgID = 0, i_msgRouter = Some 9,
          i_msgHandler = Some 7, i_msgRawHandler = Some 5\<rparr>"
       and raw = "[3, 4]" and ud = "''ctx''" and ?'c = "byte list"]
  by (simp add: entryV1_def entry_def)

subsection \<open>C10: a registered message without attachments\<close>

text \<open>
  Claim C10, at the input where \<open>Route\<close> of package \<open>extend\<close> departs from it: after
  \<open>Register(1, *S\<^sub>0)\<close> on an empty \<open>Processor\<close> the schema \<open>*S\<^sub>0\<close> is found in \<open>msgID\<close> and nothing
  is attached to it, but \<open>msgInfo[1]\<close> is nil (the entry went to \<open>msgInfo[0]\<close>), and \<open>Route\<close> of
  an \<open>*S\<^sub>0\<close> dereferences it: a nil-pointer panic, where the claim has Route return nil.
\<close>

theorem route_registered_unattached_panics:
  "run empty_Processor [OpRegister 1 (TPtr 0)] = Some slipped \<and>
   fmlookup (p_msgID slipped) (TypeOf (PtrTo 0 [] :: byte list any)) = Some 1 \<and>
   fmlookup (p_msgInfo slipped) 1 = None \<and>
   Route slipped (PtrTo 0 [] :: byte list any) ''ctx'' = (Inl PanicNilPointer, [])"
  by (simp add: empty_Processor_def Register_def slipped_def MaxUint16_def fcard_fempty
      Route_def)

end
